theory Spec2Isabelle
  imports Main
begin

section \<open>Go values used by the lockfile package\<close>

text \<open>
  The package reports failures as Go \<^verbatim>\<open>error\<close> values. The constructors below are the
  error values that can flow through the package: the sentinel values of package
  \<^verbatim>\<open>os\<close> (compared by identity in the source), raw \<^verbatim>\<open>syscall.Errno\<close> numbers,
  \<^verbatim>\<open>*fs.PathError\<close> as built by \<^verbatim>\<open>os.OpenFile\<close> and \<^verbatim>\<open>os.File\<close> methods, the two
  shapes of \<^verbatim>\<open>fmt.Errorf\<close> the source uses (without and with a wrapped \<^verbatim>\<open>%w\<close>
  operand; the format string and the path argument are kept), and the two errors a
  standard-library context reports. A nil error is \<open>None\<close> of \<open>error option\<close>.
\<close>

type_synonym pathname = string
type_synonym errno = nat

datatype error =
    ErrExist
  | ErrPermission
  | ErrClosed
  | Errno errno
  | PathError string pathname error
  | Errorf string pathname
  | ErrorfW string pathname error
  | Canceled
  | DeadlineExceeded

text \<open>Linux values of the error numbers the source and the standard library name.\<close>

definition EPERM :: errno where "EPERM = 1"
definition ENOENT :: errno where "ENOENT = 2"
definition EBADF :: errno where "EBADF = 9"
definition EWOULDBLOCK :: errno where "EWOULDBLOCK = 11"
definition EACCES :: errno where "EACCES = 13"
definition EEXIST :: errno where "EEXIST = 17"
definition ENOTEMPTY :: errno where "ENOTEMPTY = 39"
definition ESTALE :: errno where "ESTALE = 116"

text \<open>
  \<^verbatim>\<open>errors.Is(err, target)\<close>: true when \<open>err\<close> is the target, when the \<^verbatim>\<open>Is\<close>
  method of a \<^verbatim>\<open>syscall.Errno\<close> accepts the target, or when an error further down
  the \<^verbatim>\<open>Unwrap\<close> chain does.
\<close>

definition Errno_Is :: "errno \<Rightarrow> error \<Rightarrow> bool" where
  "Errno_Is e target =
     (case target of
        ErrPermission \<Rightarrow> e = EACCES \<or> e = EPERM
      | ErrExist \<Rightarrow> e = EEXIST \<or> e = ENOTEMPTY
      | _ \<Rightarrow> False)"

fun errors_Is :: "error \<Rightarrow> error \<Rightarrow> bool" where
  "errors_Is (Errno e) target = (Errno e = target \<or> Errno_Is e target)"
| "errors_Is (PathError op p e) target = (PathError op p e = target \<or> errors_Is e target)"
| "errors_Is (ErrorfW f p e) target = (ErrorfW f p e = target \<or> errors_Is e target)"
| "errors_Is err target = (err = target)"

text \<open>A Go call either returns or panics.\<close>

datatype 'a go = Ret 'a | Panic

section \<open>The error classifier\<close>

text \<open>
  \<^verbatim>\<open>IsTemporary\<close> switches on the error value itself (\<^verbatim>\<open>switch err\<close>, interface
  equality). \<^verbatim>\<open>runtime.GOOS\<close> is a constant of the build and is taken as the first
  argument. A \<^verbatim>\<open>case\<close> of a Go switch does not fall through, so the permission case
  on another system leaves the switch and reaches the final \<^verbatim>\<open>return false\<close>.
\<close>

definition IsTemporary :: "string \<Rightarrow> error option \<Rightarrow> bool" where
  "IsTemporary goos err =
     (if err = Some ErrExist then True
      else if err = Some ErrPermission then (if goos = ''windows'' then True else False)
      else False)"

section \<open>Random backoff\<close>

text \<open>
  Go's \<^verbatim>\<open>int\<close> and \<^verbatim>\<open>time.Duration\<close> are 64-bit signed integers here; \<open>wrap64\<close> is
  the wrap-around of their arithmetic. \<^verbatim>\<open>rand.IntN(n)\<close> panics when \<open>n \<le> 0\<close> and
  otherwise returns a number of \<open>[0, n)\<close>; the number the random source produces for the
  call is the argument \<open>r\<close>, reduced into that interval.
\<close>

definition wrap64 :: "int \<Rightarrow> int" where
  "wrap64 x = (x + 2 ^ 63) mod 2 ^ 64 - 2 ^ 63"

definition Millisecond :: int where
  "Millisecond = 1000000"

definition IntN :: "int \<Rightarrow> int \<Rightarrow> int go" where
  "IntN r n = (if n \<le> 0 then Panic else Ret (r mod n))"

definition randomBackoff :: "int \<Rightarrow> int \<Rightarrow> int go" where
  "randomBackoff r attempt =
     (let attempt = (if attempt > 99 then 99 else attempt) in
      case IntN r (wrap64 (wrap64 (1 + attempt) * 10)) of
        Panic \<Rightarrow> Panic
      | Ret milliseconds \<Rightarrow> Ret (wrap64 (Millisecond * milliseconds)))"


section \<open>The operating system as the package sees it\<close>

text \<open>
  The POSIX variant talks to the system through six calls: \<^verbatim>\<open>os.OpenFile\<close>,
  \<^verbatim>\<open>syscall.Flock\<close>, \<^verbatim>\<open>os.File.Stat\<close>, \<^verbatim>\<open>os.File.Close\<close>, \<^verbatim>\<open>os.Stat\<close> and
  \<^verbatim>\<open>syscall.Unlink\<close>. The model is a single file system with its directory entries,
  its inodes and the inodes whose advisory lock another process holds, together with
  the descriptor table of the calling process and the descriptors on which it holds an
  advisory lock.

  What the process cannot control is the environment: before each call one entry of
  the schedule is taken. \<open>Fault e\<close> makes the call fail with error number \<open>e\<close>;
  \<open>Interfere g\<close> lets other processes change the file system by \<open>g\<close> first; \<open>Quiet\<close>
  (and an exhausted schedule) leaves the call to the file system as it is. Every call
  is appended to the trace with its error number.
\<close>

type_synonym fd = nat
type_synonym ino = nat

record inode =
  i_size :: nat
  i_nlink :: nat

record fsys =
  dir :: "(pathname \<times> ino) list"
  inodes :: "(ino \<times> inode) list"
  olocks :: "ino list"

datatype env = Quiet | Fault errno | Interfere "fsys \<Rightarrow> fsys"

datatype call =
    SysOpen pathname
  | SysFlock fd
  | SysFstat fd
  | SysClose fd
  | SysStat pathname
  | SysUnlink pathname
  | NewTimer int
  | TimerReset int
  | Select

type_synonym event = "call \<times> errno option"

text \<open>
  The outcome of one \<^verbatim>\<open>select\<close> of \<^verbatim>\<open>WaitCtx\<close>: the context is done (cancelled, or
  past its deadline), or the timer has fired. When both channels are ready Go picks
  one, so the outcome is the environment's.
\<close>

datatype cause = Cancelled | DeadlinePassed

datatype select = CtxDone cause | TimerC

record world =
  fs :: fsys
  fdtab :: "(fd \<times> ino) list"
  held :: "fd list"
  sched :: "env list"
  selects :: "select list"
  draws :: "int list"
  trace :: "event list"

definition env_step :: "world \<Rightarrow> errno option \<times> world" where
  "env_step w =
     (case sched w of
        [] \<Rightarrow> (None, w)
      | Quiet # es \<Rightarrow> (None, w\<lparr>sched := es\<rparr>)
      | Fault e # es \<Rightarrow> (Some e, w\<lparr>sched := es\<rparr>)
      | Interfere g # es \<Rightarrow> (None, w\<lparr>fs := g (fs w), sched := es\<rparr>))"

definition record_call :: "call \<Rightarrow> errno option \<Rightarrow> world \<Rightarrow> world" where
  "record_call c r w = w\<lparr>trace := trace w @ [(c, r)]\<rparr>"

fun fresh :: "nat list \<Rightarrow> nat" where
  "fresh [] = 0"
| "fresh (x # xs) = max (Suc x) (fresh xs)"

definition remove_key :: "'k \<Rightarrow> ('k \<times> 'v) list \<Rightarrow> ('k \<times> 'v) list" where
  "remove_key k kvs = filter (\<lambda>kv. fst kv \<noteq> k) kvs"

text \<open>No entry of the schedule lets another process change the file system.\<close>

fun interferes :: "env \<Rightarrow> bool" where
  "interferes (Interfere g) = True"
| "interferes e = False"

definition no_interference :: "world \<Rightarrow> bool" where
  "no_interference w = list_all (\<lambda>e. \<not> interferes e) (sched w)"

text \<open>
  \<^verbatim>\<open>os.OpenFile(path, os.O_CREATE, 0400)\<close>: opens the file the path names, creating an
  empty one with a single link when there is none (there is no \<^verbatim>\<open>O_EXCL\<close>), and
  returns a new descriptor.
\<close>

definition os_OpenFile :: "pathname \<Rightarrow> world \<Rightarrow> (error + fd) \<times> world" where
  "os_OpenFile p w0 =
     (let (fault, w) = env_step w0 in
      case fault of
        Some e \<Rightarrow> (Inl (PathError ''open'' p (Errno e)), record_call (SysOpen p) (Some e) w)
      | None \<Rightarrow>
          let fd = fresh (map fst (fdtab w)) in
          (case map_of (dir (fs w)) p of
             Some i \<Rightarrow>
               (Inr fd, record_call (SysOpen p) None (w\<lparr>fdtab := (fd, i) # fdtab w\<rparr>))
           | None \<Rightarrow>
               let i = fresh (map fst (inodes (fs w))) in
               (Inr fd, record_call (SysOpen p) None
                  (w\<lparr>fs := (fs w)\<lparr>dir := (p, i) # dir (fs w),
                                   inodes := (i, \<lparr>i_size = 0, i_nlink = 1\<rparr>) # inodes (fs w)\<rparr>,
                     fdtab := (fd, i) # fdtab w\<rparr>))))"

text \<open>
  \<^verbatim>\<open>syscall.Flock(fd, LOCK_EX|LOCK_NB)\<close>: the lock belongs to the open file
  description, so it is refused with \<^verbatim>\<open>EWOULDBLOCK\<close> when another process holds the
  lock of the inode, and also when another descriptor of this process does.
\<close>

definition syscall_Flock :: "fd \<Rightarrow> world \<Rightarrow> error option \<times> world" where
  "syscall_Flock fd w0 =
     (let (fault, w) = env_step w0 in
      case fault of
        Some e \<Rightarrow> (Some (Errno e), record_call (SysFlock fd) (Some e) w)
      | None \<Rightarrow>
          (case map_of (fdtab w) fd of
             None \<Rightarrow> (Some (Errno EBADF), record_call (SysFlock fd) (Some EBADF) w)
           | Some i \<Rightarrow>
               if i \<in> set (olocks (fs w))
                  \<or> list_ex (\<lambda>fd'. fd' \<noteq> fd \<and> map_of (fdtab w) fd' = Some i) (held w)
               then (Some (Errno EWOULDBLOCK), record_call (SysFlock fd) (Some EWOULDBLOCK) w)
               else (None, record_call (SysFlock fd) None (w\<lparr>held := List.insert fd (held w)\<rparr>))))"

text \<open>
  \<^verbatim>\<open>os.FileInfo\<close>: \<^verbatim>\<open>Size()\<close>, and \<^verbatim>\<open>Sys()\<close> asserted to \<^verbatim>\<open>*syscall.Stat_t\<close>
  (\<open>None\<close> when the assertion fails or the pointer is nil).
\<close>

record Stat_t =
  st_dev :: nat
  st_ino :: ino
  st_nlink :: nat

record FileInfo =
  fi_size :: nat
  fi_sys :: "Stat_t option"

definition file_info :: "ino \<Rightarrow> inode \<Rightarrow> FileInfo" where
  "file_info i n =
     \<lparr>fi_size = i_size n, fi_sys = Some \<lparr>st_dev = 0, st_ino = i, st_nlink = i_nlink n\<rparr>\<rparr>"

text \<open>\<^verbatim>\<open>file.Stat()\<close> on the open file with the given name and descriptor.\<close>

definition os_File_Stat :: "pathname \<Rightarrow> fd \<Rightarrow> world \<Rightarrow> (error + FileInfo) \<times> world" where
  "os_File_Stat p fd w0 =
     (let (fault, w) = env_step w0 in
      case fault of
        Some e \<Rightarrow> (Inl (PathError ''stat'' p (Errno e)), record_call (SysFstat fd) (Some e) w)
      | None \<Rightarrow>
          (case map_of (fdtab w) fd of
             None \<Rightarrow>
               (Inl (PathError ''stat'' p (Errno EBADF)), record_call (SysFstat fd) (Some EBADF) w)
           | Some i \<Rightarrow>
               (case map_of (inodes (fs w)) i of
                  None \<Rightarrow>
                    (Inl (PathError ''stat'' p (Errno ESTALE)),
                     record_call (SysFstat fd) (Some ESTALE) w)
                | Some n \<Rightarrow> (Inr (file_info i n), record_call (SysFstat fd) None w))))"

text \<open>\<^verbatim>\<open>os.Stat(path)\<close>.\<close>

definition os_Stat :: "pathname \<Rightarrow> world \<Rightarrow> (error + FileInfo) \<times> world" where
  "os_Stat p w0 =
     (let (fault, w) = env_step w0 in
      case fault of
        Some e \<Rightarrow> (Inl (PathError ''stat'' p (Errno e)), record_call (SysStat p) (Some e) w)
      | None \<Rightarrow>
          (case map_of (dir (fs w)) p of
             None \<Rightarrow>
               (Inl (PathError ''stat'' p (Errno ENOENT)), record_call (SysStat p) (Some ENOENT) w)
           | Some i \<Rightarrow>
               (case map_of (inodes (fs w)) i of
                  None \<Rightarrow>
                    (Inl (PathError ''stat'' p (Errno ESTALE)),
                     record_call (SysStat p) (Some ESTALE) w)
                | Some n \<Rightarrow> (Inr (file_info i n), record_call (SysStat p) None w))))"

text \<open>\<^verbatim>\<open>os.SameFile\<close>: the same device and the same inode number.\<close>

definition os_SameFile :: "FileInfo \<Rightarrow> FileInfo \<Rightarrow> bool" where
  "os_SameFile fi1 fi2 =
     (case (fi_sys fi1, fi_sys fi2) of
        (Some s1, Some s2) \<Rightarrow> st_dev s1 = st_dev s2 \<and> st_ino s1 = st_ino s2
      | _ \<Rightarrow> False)"

text \<open>\<^verbatim>\<open>syscall.Unlink(path)\<close>: removes the directory entry and one link of its inode.\<close>

definition drop_link :: "ino \<Rightarrow> (ino \<times> inode) list \<Rightarrow> (ino \<times> inode) list" where
  "drop_link i ns = map (\<lambda>(j, n). if j = i then (j, n\<lparr>i_nlink := i_nlink n - 1\<rparr>) else (j, n)) ns"

definition syscall_Unlink :: "pathname \<Rightarrow> world \<Rightarrow> error option \<times> world" where
  "syscall_Unlink p w0 =
     (let (fault, w) = env_step w0 in
      case fault of
        Some e \<Rightarrow> (Some (Errno e), record_call (SysUnlink p) (Some e) w)
      | None \<Rightarrow>
          (case map_of (dir (fs w)) p of
             None \<Rightarrow> (Some (Errno ENOENT), record_call (SysUnlink p) (Some ENOENT) w)
           | Some i \<Rightarrow>
               (None, record_call (SysUnlink p) None
                  (w\<lparr>fs := (fs w)\<lparr>dir := remove_key p (dir (fs w)),
                                   inodes := drop_link i (inodes (fs w))\<rparr>\<rparr>))))"

text \<open>
  \<^verbatim>\<open>file.Close()\<close> on the open file with the given name and descriptor. The descriptor
  is released, and with it the advisory lock taken through it, also when the call
  reports an error.
\<close>

definition os_File_Close :: "pathname \<Rightarrow> fd \<Rightarrow> world \<Rightarrow> error option \<times> world" where
  "os_File_Close p fd w0 =
     (let (fault, w) = env_step w0;
          w' = w\<lparr>fdtab := remove_key fd (fdtab w), held := removeAll fd (held w)\<rparr>
      in case fault of
           Some e \<Rightarrow> (Some (PathError ''close'' p (Errno e)), record_call (SysClose fd) (Some e) w')
         | None \<Rightarrow>
             (case map_of (fdtab w) fd of
                None \<Rightarrow> (Some (PathError ''close'' p ErrClosed), record_call (SysClose fd) (Some EBADF) w')
              | Some i \<Rightarrow> (None, record_call (SysClose fd) None w')))"

section \<open>The POSIX variant of the lock file\<close>

text \<open>
  \<^verbatim>\<open>File\<close>: the path and the open \<^verbatim>\<open>*os.File\<close>, which is nil (\<open>None\<close>) once the lock
  file has been closed. The mutex serialises calls of \<^verbatim>\<open>Close\<close>; a call is modelled
  as running alone.
\<close>

record File =
  path :: pathname
  "file" :: "fd option"

text \<open>
  \<^verbatim>\<open>Create\<close>. The \<^verbatim>\<open>for\<close> loop starts over when the locked file has no link left;
  nothing bounds the number of rounds, so the result is \<open>None\<close> when the loop never
  ends.
\<close>

partial_function (option) Create :: "pathname \<Rightarrow> world \<Rightarrow> ((error + File) \<times> world) option" where
  "Create p w =
     (case os_OpenFile p w of
        (Inl err, w1) \<Rightarrow> Some (Inl err, w1)
      | (Inr fd, w1) \<Rightarrow>
          (case syscall_Flock fd w1 of
             (Some err, w2) \<Rightarrow>
               (let w3 = snd (os_File_Close p fd w2) in
                if errors_Is err (Errno EWOULDBLOCK) then Some (Inl ErrExist, w3)
                else Some (Inl err, w3))
           | (None, w2) \<Rightarrow>
               (case os_File_Stat p fd w2 of
                  (Inl err, w3) \<Rightarrow>
                    Some (Inl (ErrorfW ''failed to stat lock file \"%s\" after creation: %w'' p err),
                          snd (os_File_Close p fd w3))
                | (Inr fi, w3) \<Rightarrow>
                    if fi_size fi \<noteq> 0
                    then Some (Inl (Errorf ''the lock file \"%s\" is not empty'' p), w3)
                    else (case fi_sys fi of
                            None \<Rightarrow>
                              Some (Inl (Errorf ''the os.Stat call for lock file \"%s\" returned an unexpected data type'' p),
                                    snd (os_File_Close p fd w3))
                          | Some stat \<Rightarrow>
                              if st_nlink stat = 0
                              then Create p (snd (os_File_Close p fd w3))
                              else Some (Inr \<lparr>path = p, file = Some fd\<rparr>, w3)))))"

text \<open>
  \<^verbatim>\<open>File.Close\<close>. The deferred function runs after the body has set the result
  \<open>err\<close>: it closes the file, sets the field to nil and reports the error of the close
  when the body had none.
\<close>

definition Close :: "File \<Rightarrow> world \<Rightarrow> error option \<times> File \<times> world" where
  "Close f w =
     (case file f of
        None \<Rightarrow> (Some ErrClosed, f, w)
      | Some fd \<Rightarrow>
          (let (err, w1) =
                 (case os_File_Stat (path f) fd w of
                    (Inl e, wa) \<Rightarrow>
                      (Some (ErrorfW ''failed to stat opened lock file \"%s\" before deletion: %w'' (path f) e), wa)
                  | (Inr fi1, wa) \<Rightarrow>
                      (case os_Stat (path f) wa of
                         (Inl e, wb) \<Rightarrow>
                           (Some (ErrorfW ''failed to stat existing lock file \"%s\" by its before deletion: %w'' (path f) e), wb)
                       | (Inr fi2, wb) \<Rightarrow>
                           if \<not> os_SameFile fi1 fi2
                           then (Some (Errorf ''failed to unlink lock file \"%s\": the file was moved or deleted'' (path f)), wb)
                           else (case syscall_Unlink (path f) wb of
                                   (Some e, wc) \<Rightarrow>
                                     (Some (ErrorfW ''failed to unlink lock file \"%s\": %w'' (path f) e), wc)
                                 | (None, wc) \<Rightarrow> (None, wc))));
               (closeErr, w2) = os_File_Close (path f) fd w1
           in (if err = None then closeErr else err, f\<lparr>file := None\<rparr>, w2)))"

section \<open>The windows variant of Close\<close>

text \<open>
  On windows the \<^verbatim>\<open>File\<close> has no path, and \<^verbatim>\<open>Close\<close> only closes the handle (the
  file was created delete-on-close). The handle's \<^verbatim>\<open>Close\<close> is the argument
  \<open>os_File_Close_w\<close>, over any state of the system.
\<close>

record File_windows =
  file_w :: "fd option"

definition Close_windows ::
  "(fd \<Rightarrow> 'w \<Rightarrow> error option \<times> 'w) \<Rightarrow> File_windows \<Rightarrow> 'w \<Rightarrow> error option \<times> File_windows \<times> 'w" where
  "Close_windows os_File_Close_w f w =
     (case file_w f of
        None \<Rightarrow> (Some ErrClosed, f, w)
      | Some h \<Rightarrow>
          (let (err, w1) = os_File_Close_w h w
           in (err, f\<lparr>file_w := None\<rparr>, w1)))"

section \<open>Waiting for the lock\<close>

text \<open>
  \<^verbatim>\<open>ctx.Err()\<close> of a context that is done, the next number of the random source (\<open>0\<close>
  once the list is used up), the timer calls, and the \<^verbatim>\<open>select\<close> between
  \<^verbatim>\<open>ctx.Done()\<close> and the timer's channel (the timer fires once the list of outcomes
  is used up).
\<close>

fun ctx_Err :: "cause \<Rightarrow> error" where
  "ctx_Err Cancelled = Canceled"
| "ctx_Err DeadlinePassed = DeadlineExceeded"

definition next_draw :: "world \<Rightarrow> int \<times> world" where
  "next_draw w = (case draws w of [] \<Rightarrow> (0, w) | r # rs \<Rightarrow> (r, w\<lparr>draws := rs\<rparr>))"

definition time_NewTimer :: "int \<Rightarrow> world \<Rightarrow> world" where
  "time_NewTimer d w = record_call (NewTimer d) None w"

definition timer_Reset :: "int \<Rightarrow> world \<Rightarrow> world" where
  "timer_Reset d w = record_call (TimerReset d) None w"

definition select_ctx_timer :: "world \<Rightarrow> select \<times> world" where
  "select_ctx_timer w =
     (case selects w of
        [] \<Rightarrow> (TimerC, record_call Select None w)
      | s # ss \<Rightarrow> (s, record_call Select None (w\<lparr>selects := ss\<rparr>)))"

text \<open>
  The loop of \<^verbatim>\<open>WaitCtx\<close>, with the attempt counter as its argument; \<open>None\<close> when it
  never ends. \<^verbatim>\<open>rand.IntN\<close> panics before it takes a number from the source.
\<close>

partial_function (option) WaitCtx_loop ::
  "string \<Rightarrow> pathname \<Rightarrow> int \<Rightarrow> world \<Rightarrow> ((error + File) go \<times> world) option" where
  "WaitCtx_loop goos p attempt w =
     (case select_ctx_timer w of
        (CtxDone c, w1) \<Rightarrow> Some (Ret (Inl (ctx_Err c)), w1)
      | (TimerC, w1) \<Rightarrow>
          (case Create p w1 of
             None \<Rightarrow> None
           | Some (Inr lock, w2) \<Rightarrow> Some (Ret (Inr lock), w2)
           | Some (Inl err, w2) \<Rightarrow>
               if \<not> IsTemporary goos (Some err) then Some (Ret (Inl err), w2)
               else (let attempt' = wrap64 (attempt + 1);
                         (r, w3) = next_draw w2
                     in case randomBackoff r attempt' of
                          Panic \<Rightarrow> Some (Panic, w2)
                        | Ret delay \<Rightarrow> WaitCtx_loop goos p attempt' (timer_Reset delay w3))))"

definition WaitCtx :: "string \<Rightarrow> pathname \<Rightarrow> world \<Rightarrow> ((error + File) go \<times> world) option" where
  "WaitCtx goos p w =
     (case Create p w of
        None \<Rightarrow> None
      | Some (Inr lock, w1) \<Rightarrow> Some (Ret (Inr lock), w1)
      | Some (Inl err, w1) \<Rightarrow>
          if \<not> IsTemporary goos (Some err) then Some (Ret (Inl err), w1)
          else (let attempt = 0;
                    (r, w2) = next_draw w1
                in case randomBackoff r attempt of
                     Panic \<Rightarrow> Some (Panic, w1)
                   | Ret delay \<Rightarrow> WaitCtx_loop goos p attempt (time_NewTimer delay w2)))"


section \<open>Example states\<close>

text \<open>
  States of the system for a lock file \<^verbatim>\<open>test.lock\<close>: no file at the path; a lock
  file that some other process holds locked; a stale, empty lock file nobody holds; a
  file with five bytes of content at the path; the state after this process has created
  and locked the file; and that state after another process has moved the lock file
  away and put a new file at the path.
\<close>

definition world_free :: world where
  "world_free =
     \<lparr>fs = \<lparr>dir = [], inodes = [], olocks = []\<rparr>,
      fdtab = [], held = [], sched = [], selects = [], draws = [], trace = []\<rparr>"

definition world_busy :: world where
  "world_busy =
     world_free\<lparr>fs := \<lparr>dir = [(''test.lock'', 1)],
                          inodes = [(1, \<lparr>i_size = 0, i_nlink = 1\<rparr>)], olocks = [1]\<rparr>\<rparr>"


definition world_nonempty :: world where
  "world_nonempty =
     world_free\<lparr>fs := \<lparr>dir = [(''test.lock'', 1)],
                          inodes = [(1, \<lparr>i_size = 5, i_nlink = 1\<rparr>)], olocks = []\<rparr>\<rparr>"

definition world_held :: world where
  "world_held =
     world_free\<lparr>fs := \<lparr>dir = [(''test.lock'', 1)],
                          inodes = [(1, \<lparr>i_size = 0, i_nlink = 1\<rparr>)], olocks = []\<rparr>,
                 fdtab := [(3, 1)], held := [3]\<rparr>"

definition world_moved :: world where
  "world_moved =
     world_free\<lparr>fs := \<lparr>dir = [(''old.lock'', 1), (''test.lock'', 2)],
                          inodes = [(1, \<lparr>i_size = 0, i_nlink = 1\<rparr>),
                                    (2, \<lparr>i_size = 0, i_nlink = 1\<rparr>)], olocks = [2]\<rparr>,
                 fdtab := [(3, 1)], held := [3]\<rparr>"

text \<open>
  The busy lock file, with a timer that fires once before the context is cancelled, and
  25 and 17 as the next numbers of the random source.
\<close>

definition world_wait :: world where
  "world_wait = world_busy\<lparr>selects := [TimerC, CtxDone Cancelled], draws := [25, 17]\<rparr>"

definition lock3 :: File where
  "lock3 = \<lparr>path = ''test.lock'', file = Some 3\<rparr>"

section \<open>Properties of the classifier\<close>

text \<open>
  Claim C1. \<^verbatim>\<open>IsTemporary\<close> is true for \<^verbatim>\<open>os.ErrExist\<close> on every system, true for
  \<^verbatim>\<open>os.ErrPermission\<close> exactly on windows (where the exclusive-handle variant is
  built), and false for every other error value, among them the integrity and
  corruption errors, wrapped I/O failures and \<^verbatim>\<open>os.ErrClosed\<close>.
\<close>

theorem IsTemporary_classification:
  "IsTemporary goos (Some ErrExist) = True
   \<and> IsTemporary goos (Some ErrPermission) = (goos = ''windows'')
   \<and> IsTemporary ''windows'' (Some ErrPermission) = True
   \<and> IsTemporary ''linux'' (Some ErrPermission) = False
   \<and> IsTemporary goos (Some ErrClosed) = False
   \<and> IsTemporary goos (Some (Errno n)) = False
   \<and> IsTemporary goos (Some (PathError op p e)) = False
   \<and> IsTemporary goos (Some (Errorf f p)) = False
   \<and> IsTemporary goos (Some (ErrorfW f p e)) = False
   \<and> IsTemporary goos (Some Canceled) = False
   \<and> IsTemporary goos (Some DeadlineExceeded) = False
   \<and> IsTemporary goos err
       = (err = Some ErrExist \<or> (err = Some ErrPermission \<and> goos = ''windows''))"
  by (simp add: IsTemporary_def)

text \<open>
  Claim C10. \<^verbatim>\<open>IsTemporary(nil)\<close> is false, and the classifier compares by identity:
  the sentinel \<^verbatim>\<open>os.ErrExist\<close> itself is temporary on every system and
  \<^verbatim>\<open>os.ErrPermission\<close> itself is temporary on windows, while an error that wraps one
  of them, so that \<^verbatim>\<open>errors.Is\<close> finds the sentinel in it, is classified as
  permanent on every system. An error is temporary exactly when it is one of these
  sentinel values.
\<close>

theorem IsTemporary_by_identity:
  "IsTemporary goos None = False
   \<and> IsTemporary goos (Some ErrExist) = True
   \<and> IsTemporary ''windows'' (Some ErrPermission) = True
   \<and> IsTemporary goos (Some x) = (x = ErrExist \<or> (x = ErrPermission \<and> goos = ''windows''))
   \<and> errors_Is (ErrorfW f p ErrExist) ErrExist
   \<and> IsTemporary goos (Some (ErrorfW f p ErrExist)) = False
   \<and> errors_Is (ErrorfW f p ErrPermission) ErrPermission
   \<and> IsTemporary goos (Some (ErrorfW f p ErrPermission)) = False
   \<and> errors_Is (PathError op p (Errno EEXIST)) ErrExist
   \<and> IsTemporary goos (Some (PathError op p (Errno EEXIST))) = False
   \<and> errors_Is (Errno EACCES) ErrPermission
   \<and> IsTemporary goos (Some (Errno EACCES)) = False
   \<and> IsTemporary goos (Some (ErrorfW f p e)) = False
   \<and> IsTemporary goos (Some (PathError op p e)) = False"
  by (simp add: IsTemporary_def Errno_Is_def)

section \<open>Properties of the random backoff\<close>

lemma wrap64_id: "- (2 ^ 63) \<le> x \<Longrightarrow> x < 2 ^ 63 \<Longrightarrow> wrap64 x = x"
  by (simp add: wrap64_def)

lemma randomBackoff_eq:
  assumes "0 \<le> n"
  shows "randomBackoff r n = Ret (Millisecond * (r mod ((min n 99 + 1) * 10)))"
proof -
  define a where "a = (if n > 99 then 99 else n)"
  have a: "0 \<le> a" "a \<le> 99" "a = min n 99" using assms by (auto simp: a_def)
  have w1: "wrap64 (1 + a) = 1 + a" using a by (intro wrap64_id) auto
  have w2: "wrap64 ((1 + a) * 10) = (1 + a) * 10" using a by (intro wrap64_id) auto
  define b where "b = (1 + a) * 10"
  have b: "0 < b" "b \<le> 1000" using a by (auto simp: b_def)
  have "r mod b < b" using b by (intro pos_mod_bound)
  moreover have "0 \<le> r mod b" using b by (intro pos_mod_sign)
  ultimately have m: "0 \<le> r mod b" "r mod b < 1000" using b by linarith+
  have w3: "wrap64 (Millisecond * (r mod b)) = Millisecond * (r mod b)"
    using m by (intro wrap64_id) (auto simp: Millisecond_def)
  show ?thesis
    using w1 w2 w3 b a(3) unfolding randomBackoff_def IntN_def Let_def a_def[symmetric] b_def
    by (simp add: add.commute)
qed

text \<open>
  Claim C8. For an attempt number \<open>n \<ge> 0\<close> and any number \<open>r\<close> of the random source,
  \<^verbatim>\<open>randomBackoff\<close> returns a whole number \<open>ms\<close> of milliseconds with
  \<open>0 \<le> ms < (min n 99 + 1) * 10\<close>, so below 1000 milliseconds; from attempt 99 on the
  result is that of attempt 99; and the numbers of the random source in
  \<open>[0, (min n 99 + 1) * 10)\<close> are mapped one-to-one onto the delays of that many whole
  milliseconds, so that a uniform draw gives a uniform delay.
\<close>

theorem randomBackoff_range:
  assumes "0 \<le> n"
  shows "(\<exists>ms. randomBackoff r n = Ret (Millisecond * ms)
           \<and> 0 \<le> ms \<and> ms < (min n 99 + 1) * 10 \<and> ms < 1000
           \<and> Millisecond * ms < 1000 * Millisecond)
    \<and> (99 \<le> n \<longrightarrow> randomBackoff r n = randomBackoff r 99)
    \<and> bij_betw (\<lambda>r. randomBackoff r n) {0 ..< (min n 99 + 1) * 10}
           ((\<lambda>ms. Ret (Millisecond * ms)) ` {0 ..< (min n 99 + 1) * 10})"
proof -
  let ?b = "(min n 99 + 1) * 10"
  have b: "0 < ?b" "?b \<le> 1000" using assms by auto
  have m: "0 \<le> r mod ?b" "r mod ?b < ?b" using b by auto
  have 1: "\<exists>ms. randomBackoff r n = Ret (Millisecond * ms)
           \<and> 0 \<le> ms \<and> ms < ?b \<and> ms < 1000
           \<and> Millisecond * ms < 1000 * Millisecond"
  proof (intro exI[of _ "r mod ?b"] conjI)
    show "randomBackoff r n = Ret (Millisecond * (r mod ?b))" by (rule randomBackoff_eq[OF assms])
    show "0 \<le> r mod ?b" "r mod ?b < ?b" using m by auto
    show lt: "r mod ?b < 1000" using m b by linarith
    show "Millisecond * (r mod ?b) < 1000 * Millisecond" using lt by (simp add: Millisecond_def)
  qed
  have 2: "99 \<le> n \<longrightarrow> randomBackoff r n = randomBackoff r 99"
    using randomBackoff_eq[of n r] randomBackoff_eq[of 99 r] by simp
  have eq: "randomBackoff x n = Ret (Millisecond * x)" if "x \<in> {0 ..< ?b}" for x
    using that randomBackoff_eq[OF assms, of x] by simp
  have 3: "bij_betw (\<lambda>r. randomBackoff r n) {0 ..< ?b} ((\<lambda>ms. Ret (Millisecond * ms)) ` {0 ..< ?b})"
    unfolding bij_betw_def
  proof
    show "inj_on (\<lambda>r. randomBackoff r n) {0 ..< ?b}"
      by (rule inj_onI) (simp only: eq, simp add: Millisecond_def)
    show "(\<lambda>r. randomBackoff r n) ` {0 ..< ?b} = (\<lambda>ms. Ret (Millisecond * ms)) ` {0 ..< ?b}"
      by (rule image_cong) (simp_all only: eq)
  qed
  from 1 2 3 show ?thesis by blast
qed

theorem randomBackoff_range_witness:
  "(0::int) \<le> 150 \<and> randomBackoff 123456 150 = Ret (456 * Millisecond)
   \<and> randomBackoff 123456 3 = Ret (16 * Millisecond)
   \<and> randomBackoff 999 99 = Ret (999 * Millisecond)"
  using randomBackoff_range[of 150 123456] randomBackoff_range[of 3 123456]
  by (simp add: randomBackoff_def IntN_def wrap64_def Millisecond_def)

section \<open>The calls to the system\<close>


lemma env_step_fields:
  "trace (snd (env_step w)) = trace w"
  "fdtab (snd (env_step w)) = fdtab w"
  "held (snd (env_step w)) = held w"
  "selects (snd (env_step w)) = selects w"
  "draws (snd (env_step w)) = draws w"
  by (auto simp: env_step_def split: list.splits env.splits)

lemma record_call_fields [simp]:
  "trace (record_call c r w) = trace w @ [(c, r)]"
  "fs (record_call c r w) = fs w"
  "fdtab (record_call c r w) = fdtab w"
  "held (record_call c r w) = held w"
  "sched (record_call c r w) = sched w"
  "selects (record_call c r w) = selects w"
  "draws (record_call c r w) = draws w"
  by (simp_all add: record_call_def)

lemma calls_os_OpenFile:
  "map fst (trace (snd (os_OpenFile p w))) = map fst (trace w) @ [SysOpen p]"
  using env_step_fields[of w] by (cases "env_step w")
     (auto simp: os_OpenFile_def Let_def split: option.splits)

lemma calls_syscall_Flock:
  "map fst (trace (snd (syscall_Flock fd w))) = map fst (trace w) @ [SysFlock fd]"
  using env_step_fields[of w] by (cases "env_step w")
     (auto simp: syscall_Flock_def split: option.splits)

lemma calls_os_File_Stat:
  "map fst (trace (snd (os_File_Stat p fd w))) = map fst (trace w) @ [SysFstat fd]"
  using env_step_fields[of w] by (cases "env_step w")
     (auto simp: os_File_Stat_def split: option.splits)

lemma calls_os_Stat:
  "map fst (trace (snd (os_Stat p w))) = map fst (trace w) @ [SysStat p]"
  using env_step_fields[of w] by (cases "env_step w")
     (auto simp: os_Stat_def split: option.splits)

lemma calls_syscall_Unlink:
  "map fst (trace (snd (syscall_Unlink p w))) = map fst (trace w) @ [SysUnlink p]"
  using env_step_fields[of w] by (cases "env_step w")
     (auto simp: syscall_Unlink_def split: option.splits)

lemma calls_os_File_Close:
  "map fst (trace (snd (os_File_Close p fd w))) = map fst (trace w) @ [SysClose fd]"
  using env_step_fields[of w] by (cases "env_step w")
     (auto simp: os_File_Close_def Let_def split: option.splits)

lemma os_File_Close_released:
  "fd \<notin> fst ` set (fdtab (snd (os_File_Close p fd w)))"
  "fd \<notin> set (held (snd (os_File_Close p fd w)))"
  using env_step_fields[of w]
  by (cases "env_step w"; auto simp: os_File_Close_def Let_def remove_key_def split: option.splits)+


lemma calls_os_File_Stat_pair:
  "os_File_Stat p fd w = (r, w') \<Longrightarrow> map fst (trace w') = map fst (trace w) @ [SysFstat fd]"
  using calls_os_File_Stat[of p fd w] by simp

lemma calls_os_Stat_pair:
  "os_Stat p w = (r, w') \<Longrightarrow> map fst (trace w') = map fst (trace w) @ [SysStat p]"
  using calls_os_Stat[of p w] by simp

lemma calls_syscall_Unlink_pair:
  "syscall_Unlink p w = (r, w') \<Longrightarrow> map fst (trace w') = map fst (trace w) @ [SysUnlink p]"
  using calls_syscall_Unlink[of p w] by simp

lemma calls_os_File_Close_pair:
  "os_File_Close p fd w = (r, w') \<Longrightarrow> map fst (trace w') = map fst (trace w) @ [SysClose fd]"
  using calls_os_File_Close[of p fd w] by simp

lemmas calls_pair = calls_os_File_Stat_pair calls_os_Stat_pair calls_syscall_Unlink_pair
  calls_os_File_Close_pair


lemma no_interference_env_step:
  "no_interference w \<Longrightarrow> fs (snd (env_step w)) = fs w \<and> no_interference (snd (env_step w))"
  by (auto simp: no_interference_def env_step_def split: list.splits env.splits)

lemma frame_os_File_Stat:
  "os_File_Stat p fd w = (r, w') \<Longrightarrow>
     fdtab w' = fdtab w \<and> held w' = held w \<and> selects w' = selects w \<and> draws w' = draws w
     \<and> fs w' = fs (snd (env_step w)) \<and> sched w' = sched (snd (env_step w))"
  using env_step_fields[of w] by (cases "env_step w") (auto simp: os_File_Stat_def split: option.splits)

lemma frame_os_Stat:
  "os_Stat p w = (r, w') \<Longrightarrow>
     fdtab w' = fdtab w \<and> held w' = held w \<and> selects w' = selects w \<and> draws w' = draws w
     \<and> fs w' = fs (snd (env_step w)) \<and> sched w' = sched (snd (env_step w))"
  using env_step_fields[of w] by (cases "env_step w") (auto simp: os_Stat_def split: option.splits)

lemma frame_syscall_Unlink:
  "syscall_Unlink p w = (r, w') \<Longrightarrow>
     fdtab w' = fdtab w \<and> held w' = held w \<and> selects w' = selects w \<and> draws w' = draws w
     \<and> sched w' = sched (snd (env_step w))"
  using env_step_fields[of w] by (cases "env_step w") (auto simp: syscall_Unlink_def split: option.splits)

lemma frame_os_File_Close:
  "os_File_Close p fd w = (r, w') \<Longrightarrow>
     fdtab w' = remove_key fd (fdtab w) \<and> held w' = removeAll fd (held w)
     \<and> selects w' = selects w \<and> draws w' = draws w
     \<and> fs w' = fs (snd (env_step w)) \<and> sched w' = sched (snd (env_step w))"
  using env_step_fields[of w] by (cases "env_step w") (auto simp: os_File_Close_def Let_def split: option.splits)

lemma no_interference_cong:
  "sched w' = sched w \<Longrightarrow> no_interference w' = no_interference w"
  by (simp add: no_interference_def)

lemma quiet_os_File_Stat:
  "os_File_Stat p fd w = (r, w') \<Longrightarrow> no_interference w \<Longrightarrow> fs w' = fs w \<and> no_interference w'"
  using frame_os_File_Stat[of p fd w r w'] no_interference_env_step[of w]
  by (simp add: no_interference_cong[of w' "snd (env_step w)"])

lemma quiet_os_Stat:
  "os_Stat p w = (r, w') \<Longrightarrow> no_interference w \<Longrightarrow> fs w' = fs w \<and> no_interference w'"
  using frame_os_Stat[of p w r w'] no_interference_env_step[of w]
  by (simp add: no_interference_cong[of w' "snd (env_step w)"])

lemma quiet_os_File_Close:
  "os_File_Close p fd w = (r, w') \<Longrightarrow> no_interference w \<Longrightarrow> fs w' = fs w \<and> no_interference w'"
  using frame_os_File_Close[of p fd w r w'] no_interference_env_step[of w]
  by (simp add: no_interference_cong[of w' "snd (env_step w)"])

section \<open>Properties of Close\<close>

lemma Close_closed: "file f = None \<Longrightarrow> Close f w = (Some ErrClosed, f, w)"
  by (simp add: Close_def)

lemma Close_sets_nil: "file (fst (snd (Close f w))) = None"
  by (cases "file f") (auto simp: Close_def split: prod.splits)

lemma Close_unfold:
  assumes "file f = Some fd"
  shows "\<exists>err w1 closeErr w2 cs.
           os_File_Close (path f) fd w1 = (closeErr, w2)
         \<and> Close f w = (if err = None then closeErr else err, f\<lparr>file := None\<rparr>, w2)
         \<and> fdtab w1 = fdtab w \<and> held w1 = held w
         \<and> map fst (trace w1) = map fst (trace w) @ cs
         \<and> (cs = [SysFstat fd]
              \<or> cs = [SysFstat fd, SysStat (path f)]
              \<or> cs = [SysFstat fd, SysStat (path f), SysUnlink (path f)])
         \<and> (err = None \<longrightarrow> cs = [SysFstat fd, SysStat (path f), SysUnlink (path f)])"
proof -
  obtain r1 wa where a: "os_File_Stat (path f) fd w = (r1, wa)" by force
  obtain r2 wb where b: "os_Stat (path f) wa = (r2, wb)" by force
  obtain r3 wc where c: "syscall_Unlink (path f) wb = (r3, wc)" by force
  note fa = frame_os_File_Stat[OF a] calls_os_File_Stat_pair[OF a]
  note fb = frame_os_Stat[OF b] calls_os_Stat_pair[OF b]
  note fc = frame_syscall_Unlink[OF c] calls_syscall_Unlink_pair[OF c]
  show ?thesis
  proof (cases r1)
    case (Inl e)
    obtain ce w2 where d: "os_File_Close (path f) fd wa = (ce, w2)" by force
    show ?thesis
      by (rule exI[of _ "Some (ErrorfW ''failed to stat opened lock file \"%s\" before deletion: %w'' (path f) e)"],
          rule exI[of _ wa], rule exI[of _ ce], rule exI[of _ w2], rule exI[of _ "[SysFstat fd]"])
         (use assms a d Inl fa in \<open>simp add: Close_def\<close>)
  next
    case r1: (Inr fi1)
    show ?thesis
    proof (cases r2)
      case (Inl e)
      obtain ce w2 where d: "os_File_Close (path f) fd wb = (ce, w2)" by force
      show ?thesis
        by (rule exI[of _ "Some (ErrorfW ''failed to stat existing lock file \"%s\" by its before deletion: %w'' (path f) e)"],
            rule exI[of _ wb], rule exI[of _ ce], rule exI[of _ w2],
            rule exI[of _ "[SysFstat fd, SysStat (path f)]"])
           (use assms a b d r1 Inl fa fb in \<open>simp add: Close_def\<close>)
    next
      case r2: (Inr fi2)
      show ?thesis
      proof (cases "os_SameFile fi1 fi2")
        case False
        obtain ce w2 where d: "os_File_Close (path f) fd wb = (ce, w2)" by force
        show ?thesis
          by (rule exI[of _ "Some (Errorf ''failed to unlink lock file \"%s\": the file was moved or deleted'' (path f))"],
              rule exI[of _ wb], rule exI[of _ ce], rule exI[of _ w2],
              rule exI[of _ "[SysFstat fd, SysStat (path f)]"])
             (use assms a b d r1 r2 False fa fb in \<open>simp add: Close_def\<close>)
      next
        case True
        obtain ce w2 where d: "os_File_Close (path f) fd wc = (ce, w2)" by force
        show ?thesis
        proof (cases r3)
          case None
          show ?thesis
            by (rule exI[of _ None], rule exI[of _ wc], rule exI[of _ ce], rule exI[of _ w2],
                rule exI[of _ "[SysFstat fd, SysStat (path f), SysUnlink (path f)]"])
               (use assms a b c d r1 r2 True None fa fb fc in \<open>simp add: Close_def\<close>)
        next
          case (Some e)
          show ?thesis
            by (rule exI[of _ "Some (ErrorfW ''failed to unlink lock file \"%s\": %w'' (path f) e)"],
                rule exI[of _ wc], rule exI[of _ ce], rule exI[of _ w2],
                rule exI[of _ "[SysFstat fd, SysStat (path f), SysUnlink (path f)]"])
               (use assms a b c d r1 r2 True Some fa fb fc in \<open>simp add: Close_def\<close>)
        qed
      qed
    qed
  qed
qed

text \<open>
  Claim C6. A first call of \<^verbatim>\<open>Close\<close> on the POSIX variant (the file is not nil) makes
  its calls to the system in one of three orders: stat of the descriptor; then stat of
  the path; then unlink of the path; and in every case the close of the descriptor
  comes last. So the close is made on every first call, after the unlink or after the
  earlier error, and where the path is unlinked this happens before the close, with the
  descriptor table and the locks held still as they were at entry. A call that returns
  nil has unlinked the path.
\<close>

theorem Close_unlink_before_close:
  assumes "file f = Some fd" and "Close f w = (err, f', w')"
  shows "\<exists>cs w1 closeErr.
           map fst (trace w') = map fst (trace w) @ cs @ [SysClose fd]
         \<and> (cs = [SysFstat fd]
              \<or> cs = [SysFstat fd, SysStat (path f)]
              \<or> cs = [SysFstat fd, SysStat (path f), SysUnlink (path f)])
         \<and> (err = None \<longrightarrow> cs = [SysFstat fd, SysStat (path f), SysUnlink (path f)])
         \<and> os_File_Close (path f) fd w1 = (closeErr, w')
         \<and> map fst (trace w1) = map fst (trace w) @ cs
         \<and> fdtab w1 = fdtab w \<and> held w1 = held w"
proof -
  from Close_unfold[OF assms(1), of w]
  obtain e w1 closeErr w2 cs where u:
    "os_File_Close (path f) fd w1 = (closeErr, w2)"
    "Close f w = (if e = None then closeErr else e, f\<lparr>file := None\<rparr>, w2)"
    "fdtab w1 = fdtab w" "held w1 = held w"
    "map fst (trace w1) = map fst (trace w) @ cs"
    "cs = [SysFstat fd] \<or> cs = [SysFstat fd, SysStat (path f)]
       \<or> cs = [SysFstat fd, SysStat (path f), SysUnlink (path f)]"
    "e = None \<longrightarrow> cs = [SysFstat fd, SysStat (path f), SysUnlink (path f)]"
    by blast
  from u(2) assms(2) have eq: "w' = w2" "err = (if e = None then closeErr else e)" by simp_all
  have "e = None" if "err = None" using that eq(2) by (cases e) auto
  with u(7) have last: "err = None \<longrightarrow> cs = [SysFstat fd, SysStat (path f), SysUnlink (path f)]"
    by blast
  have tr: "map fst (trace w') = map fst (trace w) @ cs @ [SysClose fd]"
    using calls_os_File_Close_pair[OF u(1)] u(5) eq(1) by simp
  show ?thesis
    using tr u(6) last u(1) u(5) u(3) u(4) eq(1) by blast
qed


lemma Close_again:
  "file f1 = None \<Longrightarrow>
     ((\<lambda>(e :: error option, f, w). Close f w) ^^ Suc n) (e1, f1, w1) = (Some ErrClosed, f1, w1)"
  by (induction n) (simp_all add: Close_closed)

lemma Close_windows_closed: "file_w g = None \<Longrightarrow> Close_windows cl g v = (Some ErrClosed, g, v)"
  by (simp add: Close_windows_def)

lemma Close_windows_again:
  "file_w g1 = None \<Longrightarrow>
     ((\<lambda>(e :: error option, g, v). Close_windows cl g v) ^^ Suc n) (e1, g1, v1)
       = (Some ErrClosed, g1, v1)"
  by (induction n) (simp_all add: Close_windows_closed)

text \<open>
  Claim C4. Whatever the first call of \<^verbatim>\<open>Close\<close> returns, the handle it leaves has
  its file set to nil, and every later call on that handle returns \<^verbatim>\<open>os.ErrClosed\<close>
  and leaves the handle and the whole state of the system, trace included, as they
  were: no call to the system is made. When the file was open, the first call has
  closed its descriptor as its last call to the system and the descriptor and its lock
  are gone. The same holds on windows, where the first call is the close of the
  handle.
\<close>

theorem Close_second_call:
  assumes "Close f w = (err1, f1, w1)"
      and "Close_windows cl g v = (err2, g1, v1)"
  shows "file f1 = None
       \<and> Close f1 w' = (Some ErrClosed, f1, w')
       \<and> ((\<lambda>(e :: error option, f, w). Close f w) ^^ Suc n) (err1, f1, w1)
           = (Some ErrClosed, f1, w1)
       \<and> (file f = Some fd \<longrightarrow>
            fd \<notin> fst ` set (fdtab w1) \<and> fd \<notin> set (held w1)
            \<and> (\<exists>cs. map fst (trace w1) = map fst (trace w) @ cs @ [SysClose fd]))
       \<and> file_w g1 = None
       \<and> Close_windows cl g1 v' = (Some ErrClosed, g1, v')
       \<and> ((\<lambda>(e :: error option, g, v). Close_windows cl g v) ^^ Suc n) (err2, g1, v1)
           = (Some ErrClosed, g1, v1)
       \<and> (file_w g = Some h \<longrightarrow> cl h v = (err2, v1))"
proof -
  have nil: "file f1 = None"
    using Close_sets_nil[of f w] assms(1) by simp
  have posix: "fd \<notin> fst ` set (fdtab w1) \<and> fd \<notin> set (held w1)
            \<and> (\<exists>cs. map fst (trace w1) = map fst (trace w) @ cs @ [SysClose fd])"
    if op: "file f = Some fd"
  proof -
    from Close_unfold[OF op, of w]
    obtain e wb ce w2 cs where c: "os_File_Close (path f) fd wb = (ce, w2)"
      "Close f w = (if e = None then ce else e, f\<lparr>file := None\<rparr>, w2)"
      "map fst (trace wb) = map fst (trace w) @ cs" by blast
    from c(2) assms(1) have w2: "w2 = w1" by simp
    from os_File_Close_released[of fd "path f" wb] c(1) w2
    have "fd \<notin> fst ` set (fdtab w1)" "fd \<notin> set (held w1)" by simp_all
    moreover have "map fst (trace w1) = map fst (trace w) @ cs @ [SysClose fd]"
      using calls_os_File_Close_pair[OF c(1)] c(3) w2 by simp
    ultimately show ?thesis by blast
  qed
  have wnil: "file_w g1 = None"
    using assms(2) by (cases "file_w g") (auto simp: Close_windows_def split: prod.splits)
  have win: "cl h v = (err2, v1)" if "file_w g = Some h"
    using assms(2) that by (auto simp: Close_windows_def split: prod.splits)
  show ?thesis
    using nil posix win wnil Close_closed[OF nil, where w=w'] Close_again[OF nil, where n=n and ?e1.0=err1 and ?w1.0=w1]
      Close_windows_closed[OF wnil, where cl=cl and v=v']
      Close_windows_again[OF wnil, where cl=cl and n=n and ?e1.0=err2 and ?v1.0=v1]
    by blast
qed

text \<open>
  Claim C5. When, during \<^verbatim>\<open>Close\<close> on the POSIX variant, the stat of the open
  descriptor and the stat of the path succeed and do not name the same file,
  \<^verbatim>\<open>Close\<close> returns the integrity error, the calls it makes are the two stats and the
  close of the descriptor and no unlink, and the file system is as it was at entry
  unless another process has changed it meanwhile.
\<close>

theorem Close_identity_mismatch:
  assumes "file f = Some fd"
      and "os_File_Stat (path f) fd w = (Inr fi1, wa)"
      and "os_Stat (path f) wa = (Inr fi2, wb)"
      and "\<not> os_SameFile fi1 fi2"
      and "os_File_Close (path f) fd wb = (closeErr, w')"
  shows "Close f w = (Some (Errorf ''failed to unlink lock file \"%s\": the file was moved or deleted'' (path f)),
                      f\<lparr>file := None\<rparr>, w')
       \<and> map fst (trace w') = map fst (trace w) @ [SysFstat fd, SysStat (path f), SysClose fd]
       \<and> (no_interference w \<longrightarrow> fs w' = fs w)"
proof -
  have 1: "Close f w = (Some (Errorf ''failed to unlink lock file \"%s\": the file was moved or deleted'' (path f)),
                      f\<lparr>file := None\<rparr>, w')"
    using assms by (simp add: Close_def)
  have 2: "map fst (trace w') = map fst (trace w) @ [SysFstat fd, SysStat (path f), SysClose fd]"
    using calls_os_File_Stat_pair[OF assms(2)] calls_os_Stat_pair[OF assms(3)]
      calls_os_File_Close_pair[OF assms(5)] by simp
  have 3: "fs w' = fs w" if q: "no_interference w"
  proof -
    from quiet_os_File_Stat[OF assms(2) q] have a: "fs wa = fs w" "no_interference wa" by simp_all
    from quiet_os_Stat[OF assms(3) a(2)] have b: "fs wb = fs wa" "no_interference wb" by simp_all
    from quiet_os_File_Close[OF assms(5) b(2)] have "fs w' = fs wb" by simp
    with a(1) b(1) show ?thesis by simp
  qed
  from 1 2 3 show ?thesis by blast
qed


lemmas eval_defs = Close_def os_File_Stat_def os_Stat_def os_SameFile_def syscall_Unlink_def
  os_File_Close_def os_OpenFile_def syscall_Flock_def env_step_def record_call_def file_info_def
  remove_key_def drop_link_def lock3_def world_free_def

theorem Close_unlink_before_close_witness:
  "file lock3 = Some 3
   \<and> Close lock3 world_held =
       (None, lock3\<lparr>file := None\<rparr>,
        world_free\<lparr>fs := \<lparr>dir = [], inodes = [(1, \<lparr>i_size = 0, i_nlink = 0\<rparr>)], olocks = []\<rparr>,
                    trace := [(SysFstat 3, None), (SysStat ''test.lock'', None),
                              (SysUnlink ''test.lock'', None), (SysClose 3, None)]\<rparr>)"
  using Close_unlink_before_close[of lock3 3 world_held None "lock3\<lparr>file := None\<rparr>"
        "world_free\<lparr>fs := \<lparr>dir = [], inodes = [(1, \<lparr>i_size = 0, i_nlink = 0\<rparr>)], olocks = []\<rparr>,
                    trace := [(SysFstat 3, None), (SysStat ''test.lock'', None),
                              (SysUnlink ''test.lock'', None), (SysClose 3, None)]\<rparr>"]
  by (simp add: eval_defs world_held_def)


theorem Close_identity_mismatch_witness:
  "file lock3 = Some 3
   \<and> no_interference world_moved
   \<and> Close lock3 world_moved =
       (Some (Errorf ''failed to unlink lock file \"%s\": the file was moved or deleted'' ''test.lock''),
        lock3\<lparr>file := None\<rparr>,
        world_moved\<lparr>fdtab := [], held := [],
                     trace := [(SysFstat 3, None), (SysStat ''test.lock'', None), (SysClose 3, None)]\<rparr>)
   \<and> fs (world_moved\<lparr>fdtab := [], held := [],
                     trace := [(SysFstat 3, None), (SysStat ''test.lock'', None), (SysClose 3, None)]\<rparr>)
       = fs world_moved"
  using Close_identity_mismatch[of lock3 3 world_moved
        "file_info 1 \<lparr>i_size = 0, i_nlink = 1\<rparr>"
        "world_moved\<lparr>trace := [(SysFstat 3, None)]\<rparr>"
        "file_info 2 \<lparr>i_size = 0, i_nlink = 1\<rparr>"
        "world_moved\<lparr>trace := [(SysFstat 3, None), (SysStat ''test.lock'', None)]\<rparr>"
        None
        "world_moved\<lparr>fdtab := [], held := [],
                     trace := [(SysFstat 3, None), (SysStat ''test.lock'', None), (SysClose 3, None)]\<rparr>"]
  by (simp add: eval_defs world_moved_def no_interference_def)

theorem Close_second_call_witness:
  "Close lock3 world_moved =
       (Some (Errorf ''failed to unlink lock file \"%s\": the file was moved or deleted'' ''test.lock''),
        lock3\<lparr>file := None\<rparr>,
        world_moved\<lparr>fdtab := [], held := [],
                     trace := [(SysFstat 3, None), (SysStat ''test.lock'', None), (SysClose 3, None)]\<rparr>)
   \<and> Close (lock3\<lparr>file := None\<rparr>)
        (world_moved\<lparr>fdtab := [], held := [],
                     trace := [(SysFstat 3, None), (SysStat ''test.lock'', None), (SysClose 3, None)]\<rparr>)
       = (Some ErrClosed, lock3\<lparr>file := None\<rparr>,
          world_moved\<lparr>fdtab := [], held := [],
                     trace := [(SysFstat 3, None), (SysStat ''test.lock'', None), (SysClose 3, None)]\<rparr>)
   \<and> Close_windows (\<lambda>h v. (Some (PathError ''close'' ''test.lock'' (Errno 5)), v @ [h]))
        \<lparr>file_w = Some 7\<rparr> []
       = (Some (PathError ''close'' ''test.lock'' (Errno 5)), \<lparr>file_w = None\<rparr>, [7])
   \<and> Close_windows (\<lambda>h v. (Some (PathError ''close'' ''test.lock'' (Errno 5)), v @ [h]))
        \<lparr>file_w = None\<rparr> [7]
       = (Some ErrClosed, \<lparr>file_w = None\<rparr>, [7])
   \<and> file lock3 = Some 3 \<and> file_w \<lparr>file_w = Some 7\<rparr> = Some 7"
  using Close_second_call[of lock3 world_moved
        "Some (Errorf ''failed to unlink lock file \"%s\": the file was moved or deleted'' ''test.lock'')"
        "lock3\<lparr>file := None\<rparr>"
        "world_moved\<lparr>fdtab := [], held := [],
                     trace := [(SysFstat 3, None), (SysStat ''test.lock'', None), (SysClose 3, None)]\<rparr>"
        "\<lambda>h v. (Some (PathError ''close'' ''test.lock'' (Errno 5)), v @ [h])"
        "\<lparr>file_w = Some 7\<rparr>" "[]"
        "Some (PathError ''close'' ''test.lock'' (Errno 5))" "\<lparr>file_w = None\<rparr>" "[7]"
        "world_moved\<lparr>fdtab := [], held := [],
                     trace := [(SysFstat 3, None), (SysStat ''test.lock'', None), (SysClose 3, None)]\<rparr>"
        0 3 "[7]" 7]
  by (simp add: eval_defs world_moved_def Close_windows_def)


section \<open>Properties of Create\<close>

lemma event_os_OpenFile:
  "os_OpenFile p w = (r, w') \<Longrightarrow>
     \<exists>e. trace w' = trace w @ [(SysOpen p, e)]
       \<and> (case r of Inl err \<Rightarrow> (\<exists>x. err = PathError ''open'' p (Errno x) \<and> e = Some x)
                    | Inr fd \<Rightarrow> e = None)"
  using env_step_fields[of w]
  by (cases "env_step w") (auto simp: os_OpenFile_def Let_def split: option.splits)

lemma event_syscall_Flock:
  "syscall_Flock fd w = (r, w') \<Longrightarrow>
     \<exists>e. trace w' = trace w @ [(SysFlock fd, e)] \<and> r = map_option Errno e"
  using env_step_fields[of w]
  by (cases "env_step w") (auto simp: syscall_Flock_def split: option.splits if_splits)



lemma errors_Is_Errno_EWOULDBLOCK:
  "errors_Is (Errno x) (Errno EWOULDBLOCK) = (x = EWOULDBLOCK)"
  by (simp add: Errno_Is_def)



lemma fresh_greater: "x \<in> set xs \<Longrightarrow> x < fresh xs"
  by (induction xs) auto

lemma remove_key_absent: "k \<notin> fst ` set kvs \<Longrightarrow> remove_key k kvs = kvs"
  by (induction kvs) (auto simp: remove_key_def)










lemma WaitCtx_returns:
  "Create p w = Some (Inr lock, w1) \<Longrightarrow> WaitCtx goos p w = Some (Ret (Inr lock), w1)"
  "Create p w = Some (Inl err, w1) \<Longrightarrow> \<not> IsTemporary goos (Some err) \<Longrightarrow>
     WaitCtx goos p w = Some (Ret (Inl err), w1)"
  by (simp_all add: WaitCtx_def)

lemma WaitCtx_loop_returns:
  "select_ctx_timer v = (CtxDone c, v1) \<Longrightarrow>
     WaitCtx_loop goos p a v = Some (Ret (Inl (ctx_Err c)), v1)"
  "select_ctx_timer v = (TimerC, v1) \<Longrightarrow> Create p v1 = Some (Inr lock, v2) \<Longrightarrow>
     WaitCtx_loop goos p a v = Some (Ret (Inr lock), v2)"
  "select_ctx_timer v = (TimerC, v1) \<Longrightarrow> Create p v1 = Some (Inl err, v2) \<Longrightarrow>
     \<not> IsTemporary goos (Some err) \<Longrightarrow>
     WaitCtx_loop goos p a v = Some (Ret (Inl err), v2)"
  by (subst WaitCtx_loop.simps, simp)+

text \<open>
  Claim C7. When the file \<^verbatim>\<open>Create\<close> has opened and locked reports a size other than
  zero, \<^verbatim>\<open>Create\<close> returns the error "the lock file is not empty"; the classifier
  calls it permanent on every system; and \<^verbatim>\<open>WaitCtx\<close> returns it to its caller, both
  from its first attempt and from an attempt inside its loop, without trying again.
\<close>

theorem Create_nonempty_is_permanent:
  assumes "os_OpenFile p w = (Inr fd, w1)"
      and "syscall_Flock fd w1 = (None, w2)"
      and "os_File_Stat p fd w2 = (Inr fi, w3)"
      and "fi_size fi \<noteq> 0"
  shows "Create p w = Some (Inl (Errorf ''the lock file \"%s\" is not empty'' p), w3)
       \<and> IsTemporary goos (Some (Errorf ''the lock file \"%s\" is not empty'' p)) = False
       \<and> WaitCtx goos p w = Some (Ret (Inl (Errorf ''the lock file \"%s\" is not empty'' p)), w3)
       \<and> (select_ctx_timer v = (TimerC, w) \<longrightarrow>
            WaitCtx_loop goos p attempt v
              = Some (Ret (Inl (Errorf ''the lock file \"%s\" is not empty'' p)), w3))"
proof -
  have c: "Create p w = Some (Inl (Errorf ''the lock file \"%s\" is not empty'' p), w3)"
    using assms by (subst Create.simps) simp
  have t: "\<not> IsTemporary goos (Some (Errorf ''the lock file \"%s\" is not empty'' p))"
    by (simp add: IsTemporary_def)
  show ?thesis
    using c t WaitCtx_returns(2)[OF c t] WaitCtx_loop_returns(3)[OF _ c t, of v attempt]
    by simp
qed

lemma Create_world_nonempty:
  "Create ''test.lock'' world_nonempty =
     Some (Inl (Errorf ''the lock file \"%s\" is not empty'' ''test.lock''),
           world_nonempty\<lparr>fdtab := [(0, 1)], held := [0],
                           trace := [(SysOpen ''test.lock'', None), (SysFlock 0, None),
                                     (SysFstat 0, None)]\<rparr>)"
  by (subst Create.simps) (simp add: eval_defs world_nonempty_def)

theorem Create_nonempty_is_permanent_witness:
  "os_OpenFile ''test.lock'' world_nonempty
     = (Inr 0, world_nonempty\<lparr>fdtab := [(0, 1)], trace := [(SysOpen ''test.lock'', None)]\<rparr>)
   \<and> syscall_Flock 0 (world_nonempty\<lparr>fdtab := [(0, 1)], trace := [(SysOpen ''test.lock'', None)]\<rparr>)
     = (None, world_nonempty\<lparr>fdtab := [(0, 1)], held := [0],
                trace := [(SysOpen ''test.lock'', None), (SysFlock 0, None)]\<rparr>)
   \<and> os_File_Stat ''test.lock'' 0
        (world_nonempty\<lparr>fdtab := [(0, 1)], held := [0],
                trace := [(SysOpen ''test.lock'', None), (SysFlock 0, None)]\<rparr>)
     = (Inr (file_info 1 \<lparr>i_size = 5, i_nlink = 1\<rparr>),
        world_nonempty\<lparr>fdtab := [(0, 1)], held := [0],
                trace := [(SysOpen ''test.lock'', None), (SysFlock 0, None), (SysFstat 0, None)]\<rparr>)
   \<and> fi_size (file_info 1 \<lparr>i_size = 5, i_nlink = 1\<rparr>) \<noteq> 0
   \<and> WaitCtx ''linux'' ''test.lock'' world_nonempty
     = Some (Ret (Inl (Errorf ''the lock file \"%s\" is not empty'' ''test.lock'')),
             world_nonempty\<lparr>fdtab := [(0, 1)], held := [0],
                trace := [(SysOpen ''test.lock'', None), (SysFlock 0, None), (SysFstat 0, None)]\<rparr>)"
  using Create_nonempty_is_permanent[of "''test.lock''" world_nonempty 0
      "world_nonempty\<lparr>fdtab := [(0, 1)], trace := [(SysOpen ''test.lock'', None)]\<rparr>"
      "world_nonempty\<lparr>fdtab := [(0, 1)], held := [0],
                trace := [(SysOpen ''test.lock'', None), (SysFlock 0, None)]\<rparr>"
      "file_info 1 \<lparr>i_size = 5, i_nlink = 1\<rparr>"
      "world_nonempty\<lparr>fdtab := [(0, 1)], held := [0],
                trace := [(SysOpen ''test.lock'', None), (SysFlock 0, None), (SysFstat 0, None)]\<rparr>"
      "''linux''"]
  by (simp add: eval_defs world_nonempty_def)


lemma frame_os_OpenFile:
  "os_OpenFile p w = (r, w1) \<Longrightarrow>
     (case r of
        Inl e \<Rightarrow> fdtab w1 = fdtab w
      | Inr fd \<Rightarrow> fd \<notin> fst ` set (fdtab w) \<and> (\<exists>i. fdtab w1 = (fd, i) # fdtab w))"
proof -
  assume o: "os_OpenFile p w = (r, w1)"
  obtain fault b where e: "env_step w = (fault, b)" by force
  have b: "fdtab b = fdtab w" using env_step_fields(2)[of w] e by simp
  have fr: "fresh (map fst (fdtab w)) \<notin> fst ` set (fdtab w)"
    using fresh_greater[of "fresh (map fst (fdtab w))" "map fst (fdtab w)"] by auto
  show ?thesis
    using o e b fr by (auto simp: os_OpenFile_def Let_def split: option.splits)
qed

lemma frame_syscall_Flock:
  "syscall_Flock fd w = (r, w') \<Longrightarrow> fdtab w' = fdtab w"
  using env_step_fields[of w]
  by (cases "env_step w") (auto simp: syscall_Flock_def split: option.splits if_splits)

lemma fdtab_after_close:
  assumes "fd \<notin> fst ` set tab" and "fdtab w = (fd, i) # tab"
  shows "fdtab (snd (os_File_Close p fd w)) = tab"
proof -
  obtain r w' where c: "os_File_Close p fd w = (r, w')" by force
  from frame_os_File_Close[OF c] assms show ?thesis
    using c remove_key_absent[OF assms(1)] by (simp add: remove_key_def)
qed

text \<open>
  Every error return of \<^verbatim>\<open>Create\<close> but one leaves the descriptor table as it was at
  entry; the return for a file that is not empty, like the successful return, leaves
  one new descriptor in it.
\<close>

lemma Create_descriptors:
  assumes "Create p w = Some y"
  shows "case fst y of
           Inl e \<Rightarrow>
             if e = Errorf ''the lock file \"%s\" is not empty'' p
             then \<exists>fd i. fd \<notin> fst ` set (fdtab w) \<and> fdtab (snd y) = (fd, i) # fdtab w
             else fdtab (snd y) = fdtab w
         | Inr f \<Rightarrow>
             \<exists>fd i. f = \<lparr>path = p, file = Some fd\<rparr> \<and> fd \<notin> fst ` set (fdtab w)
                    \<and> fdtab (snd y) = (fd, i) # fdtab w"
  using assms
proof (induction p w y rule: Create.raw_induct[rotated, consumes 1])
  case (1 C p w y)
  obtain r1 w1 where o: "os_OpenFile p w = (r1, w1)" by force
  note f1 = frame_os_OpenFile[OF o]
  show ?case
  proof (cases r1)
    case (Inl err)
    with 1(2) o have y: "y = (Inl err, w1)" by simp
    from event_os_OpenFile[OF o] Inl have "err \<noteq> Errorf ''the lock file \"%s\" is not empty'' p"
      by auto
    with y f1 Inl show ?thesis by simp
  next
    case (Inr fd)
    with f1 obtain i where fr: "fd \<notin> fst ` set (fdtab w)" and t1: "fdtab w1 = (fd, i) # fdtab w"
      by auto
    obtain r2 w2 where fl: "syscall_Flock fd w1 = (r2, w2)" by force
    from frame_syscall_Flock[OF fl] t1 have t2: "fdtab w2 = (fd, i) # fdtab w" by simp
    from event_syscall_Flock[OF fl] obtain e2 where k2: "r2 = map_option Errno e2" by blast
    show ?thesis
    proof (cases e2)
      case (Some x)
      from 1(2) o Inr fl k2 Some
      have y: "y = (if x = EWOULDBLOCK then Inl ErrExist else Inl (Errno x), snd (os_File_Close p fd w2))"
        by (auto simp add: Errno_Is_def Let_def split: if_splits)
      show ?thesis using y fdtab_after_close[OF fr t2, of p] by simp
    next
      case None
      with k2 have r2: "r2 = None" by simp
      obtain r3 w3 where st: "os_File_Stat p fd w2 = (r3, w3)" by force
      from frame_os_File_Stat[OF st] t2 have t3: "fdtab w3 = (fd, i) # fdtab w" by simp
      note cl = fdtab_after_close[OF fr t3, of p]
      show ?thesis
      proof (cases r3)
        case (Inl err)
        with 1(2) o Inr fl r2 st
        have y: "y = (Inl (ErrorfW ''failed to stat lock file \"%s\" after creation: %w'' p err),
                      snd (os_File_Close p fd w3))" by simp
        show ?thesis using y cl by simp
      next
        case fi: (Inr fi)
        show ?thesis
        proof (cases "fi_size fi \<noteq> 0")
          case True
          with 1(2) o Inr fl r2 st fi
          have y: "y = (Inl (Errorf ''the lock file \"%s\" is not empty'' p), w3)" by simp
          show ?thesis using y t3 fr by simp
        next
          case False
          show ?thesis
          proof (cases "fi_sys fi")
            case sysNone: None
            with 1(2) o Inr fl r2 st fi False
            have y: "y = (Inl (Errorf ''the os.Stat call for lock file \"%s\" returned an unexpected data type'' p),
                          snd (os_File_Close p fd w3))" by simp
            show ?thesis using y cl by simp
          next
            case (Some stat)
            show ?thesis
            proof (cases "st_nlink stat = 0")
              case True
              with 1(2) o Inr fl r2 st fi False Some
              have "C p (snd (os_File_Close p fd w3)) = Some y" by simp
              from 1(1)[OF this, unfolded cl] show ?thesis .
            next
              case nz: False
              with 1(2) o Inr fl r2 st fi False Some
              have y: "y = (Inr \<lparr>path = p, file = Some fd\<rparr>, w3)" by simp
              show ?thesis using y t3 fr by simp
            qed
          qed
        qed
      qed
    qed
  qed
qed

text \<open>
  The race the loop of \<^verbatim>\<open>Create\<close> is for: the lock file is held by another process,
  which unlinks it and releases its lock after this process has opened it and before
  this process locks it. \<^verbatim>\<open>Create\<close> then holds the lock of a file without a link,
  closes it, and succeeds in the next round on a new file.
\<close>

lemma Create_retries_after_lost_race:
  "Create ''test.lock''
     (world_busy\<lparr>sched := [Quiet, Interfere (\<lambda>f. f\<lparr>dir := [], inodes := drop_link 1 (inodes f),
                                                     olocks := []\<rparr>)]\<rparr>) =
   Some (Inr \<lparr>path = ''test.lock'', file = Some 0\<rparr>,
         world_free\<lparr>fs := \<lparr>dir = [(''test.lock'', 2)],
                              inodes = [(2, \<lparr>i_size = 0, i_nlink = 1\<rparr>),
                                        (1, \<lparr>i_size = 0, i_nlink = 0\<rparr>)],
                              olocks = []\<rparr>,
                     fdtab := [(0, 2)], held := [0],
                     trace := [(SysOpen ''test.lock'', None), (SysFlock 0, None), (SysFstat 0, None),
                               (SysClose 0, None), (SysOpen ''test.lock'', None),
                               (SysFlock 0, None), (SysFstat 0, None)]\<rparr>)"
  by (subst Create.simps, simp add: eval_defs world_busy_def)
     (subst Create.simps, simp add: eval_defs world_busy_def)

text \<open>
  Claim C2 (not met by the code). On the file of \<open>world_nonempty\<close> (five bytes at the
  path, nobody holding its lock) \<^verbatim>\<open>Create\<close> returns the error "the lock file is not
  empty" while the descriptor it opened is still in the descriptor table and still
  holds the advisory lock: no close was made. A second \<^verbatim>\<open>Create\<close> in that state is
  then refused by the process's own lock and returns \<^verbatim>\<open>os.ErrExist\<close>.
\<close>

theorem Create_nonempty_leaves_descriptor_open:
  "fdtab world_nonempty = [] \<and> held world_nonempty = []
   \<and> Create ''test.lock'' world_nonempty =
       Some (Inl (Errorf ''the lock file \"%s\" is not empty'' ''test.lock''),
             world_nonempty\<lparr>fdtab := [(0, 1)], held := [0],
                             trace := [(SysOpen ''test.lock'', None), (SysFlock 0, None),
                                       (SysFstat 0, None)]\<rparr>)
   \<and> Create ''test.lock''
        (world_nonempty\<lparr>fdtab := [(0, 1)], held := [0],
                             trace := [(SysOpen ''test.lock'', None), (SysFlock 0, None),
                                       (SysFstat 0, None)]\<rparr>) =
       Some (Inl ErrExist,
             world_nonempty\<lparr>fdtab := [(0, 1)], held := [0],
                             trace := [(SysOpen ''test.lock'', None), (SysFlock 0, None),
                                       (SysFstat 0, None), (SysOpen ''test.lock'', None),
                                       (SysFlock 1, Some EWOULDBLOCK), (SysClose 1, None)]\<rparr>)"
proof -
  have "Create ''test.lock''
        (world_nonempty\<lparr>fdtab := [(0, 1)], held := [0],
                             trace := [(SysOpen ''test.lock'', None), (SysFlock 0, None),
                                       (SysFstat 0, None)]\<rparr>) =
       Some (Inl ErrExist,
             world_nonempty\<lparr>fdtab := [(0, 1)], held := [0],
                             trace := [(SysOpen ''test.lock'', None), (SysFlock 0, None),
                                       (SysFstat 0, None), (SysOpen ''test.lock'', None),
                                       (SysFlock 1, Some EWOULDBLOCK), (SysClose 1, None)]\<rparr>)"
    by (subst Create.simps) (simp add: eval_defs world_nonempty_def Errno_Is_def)
  then show ?thesis
    using Create_world_nonempty by (simp add: world_nonempty_def world_free_def)
qed


section \<open>Properties of WaitCtx\<close>

lemma select_ctx_timer_frame:
  "select_ctx_timer v = (s, v1) \<Longrightarrow>
     trace v1 = trace v @ [(Select, None)] \<and> fs v1 = fs v \<and> fdtab v1 = fdtab v
     \<and> held v1 = held v \<and> sched v1 = sched v \<and> draws v1 = draws v"
  by (auto simp: select_ctx_timer_def split: list.splits)

lemma ctx_Err_not_contention:
  "ctx_Err c \<noteq> ErrExist \<and> ctx_Err c \<noteq> ErrPermission \<and> \<not> IsTemporary goos (Some (ctx_Err c))"
  by (cases c) (simp_all add: IsTemporary_def)

lemma WaitCtx_enters_loop:
  assumes "Create p w = Some (Inl err, w1)" and "IsTemporary goos (Some err)"
  shows "WaitCtx goos p w =
           WaitCtx_loop goos p 0
             (time_NewTimer (Millisecond * (fst (next_draw w1) mod 10)) (snd (next_draw w1)))"
  using assms randomBackoff_eq[of 0 "fst (next_draw w1)"]
  by (simp add: WaitCtx_def split_beta)

lemma WaitCtx_loop_again:
  assumes "select_ctx_timer v = (TimerC, v1)" and "Create p v1 = Some (Inl err, v2)"
      and "IsTemporary goos (Some err)" and "0 \<le> a" and "a < 2 ^ 63 - 1"
  shows "WaitCtx_loop goos p a v =
           WaitCtx_loop goos p (a + 1)
             (timer_Reset (Millisecond * (fst (next_draw v2) mod ((min (a + 1) 99 + 1) * 10)))
                (snd (next_draw v2)))"
proof -
  have w: "wrap64 (a + 1) = a + 1" using assms(4,5) by (intro wrap64_id) auto
  have r: "randomBackoff (fst (next_draw v2)) (a + 1)
             = Ret (Millisecond * (fst (next_draw v2) mod ((min (a + 1) 99 + 1) * 10)))"
    using assms(4) by (intro randomBackoff_eq) simp
  show ?thesis
    using assms(1,2,3) w r
    by (subst WaitCtx_loop.simps) (simp add: Let_def split_beta)
qed

text \<open>
  Claim C9. \<^verbatim>\<open>WaitCtx\<close> calls \<^verbatim>\<open>Create\<close> once and returns its result when that is a
  success or an error that is not temporary, in the state that one call left; on a
  temporary error it starts the timer with the backoff of attempt 0 and enters the
  loop. In the loop, when the \<^verbatim>\<open>select\<close> takes the done context, the loop returns the
  context's error, which is neither of the contention errors and is not temporary, and
  nothing but the \<^verbatim>\<open>select\<close> has happened: no call to the system, so no \<^verbatim>\<open>Create\<close>.
  When it takes the timer, \<^verbatim>\<open>Create\<close> is called again and its result is returned when
  it is a success or not temporary; on a temporary error the loop goes on with the
  next attempt number and the timer reset to that attempt's backoff.
\<close>

theorem WaitCtx_control_flow:
  "(Create p w = Some (Inr lock, w1) \<longrightarrow> WaitCtx goos p w = Some (Ret (Inr lock), w1))
   \<and> (Create p w = Some (Inl err, w1) \<and> \<not> IsTemporary goos (Some err) \<longrightarrow>
        WaitCtx goos p w = Some (Ret (Inl err), w1))
   \<and> (Create p w = Some (Inl err, w1) \<and> IsTemporary goos (Some err) \<longrightarrow>
        WaitCtx goos p w =
          WaitCtx_loop goos p 0
            (time_NewTimer (Millisecond * (fst (next_draw w1) mod 10)) (snd (next_draw w1))))
   \<and> (select_ctx_timer v = (CtxDone c, v1) \<longrightarrow>
        WaitCtx_loop goos p a v = Some (Ret (Inl (ctx_Err c)), v1)
        \<and> trace v1 = trace v @ [(Select, None)]
        \<and> fs v1 = fs v \<and> fdtab v1 = fdtab v \<and> held v1 = held v \<and> sched v1 = sched v
        \<and> ctx_Err c \<noteq> ErrExist \<and> ctx_Err c \<noteq> ErrPermission
        \<and> \<not> IsTemporary goos (Some (ctx_Err c)))
   \<and> (select_ctx_timer v = (TimerC, v1) \<and> Create p v1 = Some (Inr lock, v2) \<longrightarrow>
        WaitCtx_loop goos p a v = Some (Ret (Inr lock), v2))
   \<and> (select_ctx_timer v = (TimerC, v1) \<and> Create p v1 = Some (Inl err, v2)
        \<and> \<not> IsTemporary goos (Some err) \<longrightarrow>
        WaitCtx_loop goos p a v = Some (Ret (Inl err), v2))
   \<and> (select_ctx_timer v = (TimerC, v1) \<and> Create p v1 = Some (Inl err, v2)
        \<and> IsTemporary goos (Some err) \<and> 0 \<le> a \<and> a < 2 ^ 63 - 1 \<longrightarrow>
        WaitCtx_loop goos p a v =
          WaitCtx_loop goos p (a + 1)
            (timer_Reset (Millisecond * (fst (next_draw v2) mod ((min (a + 1) 99 + 1) * 10)))
               (snd (next_draw v2))))"
proof (intro conjI impI; (elim conjE)?)
  show "WaitCtx goos p w = Some (Ret (Inr lock), w1)" if "Create p w = Some (Inr lock, w1)"
    using that by (rule WaitCtx_returns(1))
  show "WaitCtx goos p w = Some (Ret (Inl err), w1)"
    if "Create p w = Some (Inl err, w1)" "\<not> IsTemporary goos (Some err)"
    using that by (rule WaitCtx_returns(2))
  show "WaitCtx goos p w =
          WaitCtx_loop goos p 0
            (time_NewTimer (Millisecond * (fst (next_draw w1) mod 10)) (snd (next_draw w1)))"
    if "Create p w = Some (Inl err, w1)" "IsTemporary goos (Some err)"
    using that by (rule WaitCtx_enters_loop)
  show "WaitCtx_loop goos p a v = Some (Ret (Inl (ctx_Err c)), v1)"
    if "select_ctx_timer v = (CtxDone c, v1)"
    using that by (rule WaitCtx_loop_returns(1))
  show "trace v1 = trace v @ [(Select, None)]" "fs v1 = fs v" "fdtab v1 = fdtab v"
    "held v1 = held v" "sched v1 = sched v"
    if "select_ctx_timer v = (CtxDone c, v1)"
    using select_ctx_timer_frame[OF that] by simp_all
  show "ctx_Err c \<noteq> ErrExist" "ctx_Err c \<noteq> ErrPermission"
    "\<not> IsTemporary goos (Some (ctx_Err c))"
    using ctx_Err_not_contention[of c goos] by simp_all
  show "WaitCtx_loop goos p a v = Some (Ret (Inr lock), v2)"
    if "select_ctx_timer v = (TimerC, v1)" "Create p v1 = Some (Inr lock, v2)"
    using that by (rule WaitCtx_loop_returns(2))
  show "WaitCtx_loop goos p a v = Some (Ret (Inl err), v2)"
    if "select_ctx_timer v = (TimerC, v1)" "Create p v1 = Some (Inl err, v2)"
       "\<not> IsTemporary goos (Some err)"
    using that by (rule WaitCtx_loop_returns(3))
  show "WaitCtx_loop goos p a v =
          WaitCtx_loop goos p (a + 1)
            (timer_Reset (Millisecond * (fst (next_draw v2) mod ((min (a + 1) 99 + 1) * 10)))
               (snd (next_draw v2)))"
    if "select_ctx_timer v = (TimerC, v1)" "Create p v1 = Some (Inl err, v2)"
       "IsTemporary goos (Some err)" "0 \<le> a" "a < 2 ^ 63 - 1"
    using that by (rule WaitCtx_loop_again)
qed


theorem WaitCtx_control_flow_witness:
  "WaitCtx ''linux'' ''test.lock'' world_wait =
     Some (Ret (Inl Canceled),
           world_busy\<lparr>selects := [], draws := [],
             trace := [(SysOpen ''test.lock'', None), (SysFlock 0, Some EWOULDBLOCK),
                       (SysClose 0, None), (NewTimer 5000000, None), (Select, None),
                       (SysOpen ''test.lock'', None), (SysFlock 0, Some EWOULDBLOCK),
                       (SysClose 0, None), (TimerReset 17000000, None), (Select, None)]\<rparr>)"
proof -
  let ?p = "''test.lock''"
  let ?att = "[(SysOpen ?p, None), (SysFlock 0, Some EWOULDBLOCK), (SysClose 0, None)]"
  let ?W1 = "world_wait\<lparr>trace := ?att\<rparr>"
  let ?W2 = "world_wait\<lparr>draws := [17], trace := ?att @ [(NewTimer 5000000, None)]\<rparr>"
  let ?W3 = "world_wait\<lparr>selects := [CtxDone Cancelled], draws := [17],
               trace := ?att @ [(NewTimer 5000000, None), (Select, None)]\<rparr>"
  let ?W4 = "world_wait\<lparr>selects := [CtxDone Cancelled], draws := [17],
               trace := ?att @ [(NewTimer 5000000, None), (Select, None)] @ ?att\<rparr>"
  let ?W5 = "world_wait\<lparr>selects := [CtxDone Cancelled], draws := [],
               trace := ?att @ [(NewTimer 5000000, None), (Select, None)] @ ?att
                        @ [(TimerReset 17000000, None)]\<rparr>"
  let ?W6 = "world_wait\<lparr>selects := [], draws := [],
               trace := ?att @ [(NewTimer 5000000, None), (Select, None)] @ ?att
                        @ [(TimerReset 17000000, None), (Select, None)]\<rparr>"
  note T = WaitCtx_control_flow[where goos = "''linux''" and p = ?p]
  have tmp: "IsTemporary ''linux'' (Some ErrExist)" by (simp add: IsTemporary_def)
  have c0: "Create ?p world_wait = Some (Inl ErrExist, ?W1)"
    by (subst Create.simps) (simp add: eval_defs world_wait_def world_busy_def Errno_Is_def)
  have d0: "time_NewTimer (Millisecond * (fst (next_draw ?W1) mod 10)) (snd (next_draw ?W1)) = ?W2"
    by (simp add: next_draw_def time_NewTimer_def record_call_def Millisecond_def
          world_wait_def world_busy_def world_free_def)
  have s1: "WaitCtx ''linux'' ?p world_wait = WaitCtx_loop ''linux'' ?p 0 ?W2"
    using T[where w = world_wait and err = ErrExist and ?w1.0 = ?W1] c0 tmp d0 by simp
  have sel1: "select_ctx_timer ?W2 = (TimerC, ?W3)"
    by (simp add: select_ctx_timer_def record_call_def world_wait_def world_busy_def world_free_def)
  have c1: "Create ?p ?W3 = Some (Inl ErrExist, ?W4)"
    by (subst Create.simps) (simp add: eval_defs world_wait_def world_busy_def Errno_Is_def)
  have d1: "timer_Reset (Millisecond * (fst (next_draw ?W4) mod ((min (0 + 1) 99 + 1) * 10)))
              (snd (next_draw ?W4)) = ?W5"
    by (simp add: next_draw_def timer_Reset_def record_call_def Millisecond_def
          world_wait_def world_busy_def world_free_def)
  have s2: "WaitCtx_loop ''linux'' ?p 0 ?W2 = WaitCtx_loop ''linux'' ?p (0 + 1) ?W5"
    using T[where v = ?W2 and ?v1.0 = ?W3 and err = ErrExist and ?v2.0 = ?W4 and a = 0]
      sel1 c1 tmp d1 by simp
  have sel2: "select_ctx_timer ?W5 = (CtxDone Cancelled, ?W6)"
    by (simp add: select_ctx_timer_def record_call_def world_wait_def world_busy_def world_free_def)
  have s3: "WaitCtx_loop ''linux'' ?p (0 + 1) ?W5 = Some (Ret (Inl Canceled), ?W6)"
    using T[where v = ?W5 and c = Cancelled and ?v1.0 = ?W6 and a = "0 + 1"] sel2 by simp
  have "?W6 = world_busy\<lparr>selects := [], draws := [],
             trace := [(SysOpen ''test.lock'', None), (SysFlock 0, Some EWOULDBLOCK),
                       (SysClose 0, None), (NewTimer 5000000, None), (Select, None),
                       (SysOpen ''test.lock'', None), (SysFlock 0, Some EWOULDBLOCK),
                       (SysClose 0, None), (TimerReset 17000000, None), (Select, None)]\<rparr>"
    by (simp add: world_wait_def)
  with s1 s2 s3 show ?thesis by simp
qed

end
